theory Spec2Isabelle
  imports Main
begin

section \<open>Go values: byte strings, errors, outcomes\<close>

text \<open>
  A Go \<open>string\<close> and a \<open>[]byte\<close> are sequences of bytes; \<^typ>\<open>char\<close> is an 8-bit
  value, so both are modelled as \<^typ>\<open>string\<close>. A nil byte slice and an empty one are not
  told apart (the driver only ever takes their length or converts them to a string).
\<close>

type_synonym bytes = string

text \<open>
  The errors the driver builds or passes on. A wrapped error (\<open>fmt.Errorf("...: %w", err)\<close>)
  keeps the error it wraps; a formatted message keeps its arguments.
\<close>

datatype error =
    EOF                                \<comment> \<open>\<open>io.EOF\<close>\<close>
  | ErrUnexpectedEOF                   \<comment> \<open>\<open>io.ErrUnexpectedEOF\<close>\<close>
  | ErrBadConn                         \<comment> \<open>\<open>driver.ErrBadConn\<close>\<close>
  | ErrSkip                            \<comment> \<open>\<open>driver.ErrSkip\<close>\<close>
  | NetError                           \<comment> \<open>a failure reported by the socket\<close>
  | FailedReadMarker error             \<comment> \<open>"failed to read continuation marker: %w"\<close>
  | InvalidMarker char char char       \<comment> \<open>"invalid continuation marker: %X %X %X"\<close>
  | InvalidLength bytes                \<comment> \<open>"invalid length: %s"\<close>
  | UnknownResponseType char           \<comment> \<open>"unknown response type: %c"\<close>
  | FailedCreateIPCReader              \<comment> \<open>"failed to create IPC reader: %w"\<close>
  | ErrorReadingIPCRecords             \<comment> \<open>"error reading IPC records: %w"\<close>
  | FailedToSendCommand error          \<comment> \<open>"failed to send command: %w"\<close>
  | FailedToReadResponse error         \<comment> \<open>"failed to read response: %w"\<close>
  | LunaError bytes                    \<comment> \<open>"luna error: %s"\<close>
  | FailedToParseArrowIPC error        \<comment> \<open>"failed to parse Arrow IPC: %w"\<close>
  | AlreadyOpenTransaction             \<comment> \<open>"luna: there is already an open transaction"\<close>
  | ConnectionAlreadyClosed            \<comment> \<open>"luna: connection already closed"\<close>
  | UnsupportedArrowType string        \<comment> \<open>"unsupported Arrow type: %T"\<close>

text \<open>
  What a call does: it returns a value with a nil error, returns a non-nil error, or
  panics (an unrecoverable abort that unwinds the caller as well).
\<close>

datatype 'a outcome = Ok 'a | Err error | Panic string

section \<open>The buffered reader\<close>

text \<open>
  A \<open>*bufio.Reader\<close> over the socket is modelled by the bytes it has still to deliver;
  the end of the list is the end of the stream (the peer closed the connection). Every
  read returns its outcome and the reader after it.
\<close>

type_synonym reader = bytes

fun ReadByte :: "reader \<Rightarrow> char outcome \<times> reader" where
  "ReadByte [] = (Err EOF, [])"
| "ReadByte (b # bs) = (Ok b, bs)"

text \<open>
  \<open>io.ReadFull(reader, buf)\<close> with \<open>len(buf) = n\<close>: fills the buffer, or fails with
  \<open>io.EOF\<close> when no byte was read and \<open>io.ErrUnexpectedEOF\<close> when some but not all were.
\<close>

definition ReadFull :: "nat \<Rightarrow> reader \<Rightarrow> bytes outcome \<times> reader" where
  "ReadFull n rd =
     (if n \<le> length rd then (Ok (take n rd), drop n rd)
      else if rd = [] then (Err EOF, [])
      else (Err ErrUnexpectedEOF, []))"

text \<open>
  \<open>reader.ReadString(delim)\<close>: the bytes up to and including the first \<open>delim\<close>; when the
  stream ends before one, the error is \<open>io.EOF\<close> (the driver drops the partial data).
\<close>

definition ReadString :: "char \<Rightarrow> reader \<Rightarrow> bytes outcome \<times> reader" where
  "ReadString delim rd =
     (if delim \<in> set rd
      then (Ok (takeWhile (\<lambda>c. c \<noteq> delim) rd @ [delim]),
            drop 1 (dropWhile (\<lambda>c. c \<noteq> delim) rd))
      else (Err EOF, []))"

section \<open>Library functions on strings\<close>

subsection \<open>\<open>strings.TrimSpace\<close>\<close>

text \<open>
  \<open>strings.TrimSpace\<close> removes leading and trailing white space as defined by Unicode
  (\<open>unicode.IsSpace\<close>) from a UTF-8 string. A white-space rune is one of the six ASCII
  bytes below, or one of the listed two- and three-byte UTF-8 encodings (U+0085, U+00A0,
  U+1680, U+2000 to U+200A, U+2028, U+2029, U+202F, U+205F, U+3000). A byte that does not
  start a valid encoding decodes to the replacement rune, which is not white space.
\<close>

definition asciiSpace :: "char \<Rightarrow> bool" where
  "asciiSpace c \<longleftrightarrow>
     c = CHR 0x09 \<or> c = CHR 0x0A \<or> c = CHR 0x0B \<or> c = CHR 0x0C \<or> c = CHR 0x0D \<or> c = CHR 0x20"

definition unicodeSpace2 :: "bytes list" where
  "unicodeSpace2 = [[CHR 0xC2, CHR 0x85], [CHR 0xC2, CHR 0xA0]]"

definition unicodeSpace3 :: "bytes list" where
  "unicodeSpace3 =
     [[CHR 0xE1, CHR 0x9A, CHR 0x80],
      [CHR 0xE2, CHR 0x80, CHR 0x80], [CHR 0xE2, CHR 0x80, CHR 0x81],
      [CHR 0xE2, CHR 0x80, CHR 0x82], [CHR 0xE2, CHR 0x80, CHR 0x83],
      [CHR 0xE2, CHR 0x80, CHR 0x84], [CHR 0xE2, CHR 0x80, CHR 0x85],
      [CHR 0xE2, CHR 0x80, CHR 0x86], [CHR 0xE2, CHR 0x80, CHR 0x87],
      [CHR 0xE2, CHR 0x80, CHR 0x88], [CHR 0xE2, CHR 0x80, CHR 0x89],
      [CHR 0xE2, CHR 0x80, CHR 0x8A],
      [CHR 0xE2, CHR 0x80, CHR 0xA8], [CHR 0xE2, CHR 0x80, CHR 0xA9],
      [CHR 0xE2, CHR 0x80, CHR 0xAF],
      [CHR 0xE2, CHR 0x81, CHR 0x9F],
      [CHR 0xE3, CHR 0x80, CHR 0x80]]"

text \<open>The width in bytes of the white-space rune a string starts with; 0 when it starts with none.\<close>

definition spacePrefix :: "bytes \<Rightarrow> nat" where
  "spacePrefix s =
     (case s of
        [] \<Rightarrow> 0
      | c # _ \<Rightarrow>
          if asciiSpace c then 1
          else if take 2 s \<in> set unicodeSpace2 then 2
          else if take 3 s \<in> set unicodeSpace3 then 3
          else 0)"

text \<open>The width of the white-space rune a string ends with; 0 when it ends with none.\<close>

definition spaceSuffix :: "bytes \<Rightarrow> nat" where
  "spaceSuffix s =
     (if s = [] then 0
      else if asciiSpace (last s) then 1
      else if 2 \<le> length s \<and> drop (length s - 2) s \<in> set unicodeSpace2 then 2
      else if 3 \<le> length s \<and> drop (length s - 3) s \<in> set unicodeSpace3 then 3
      else 0)"

function TrimLeft :: "bytes \<Rightarrow> bytes" where
  "TrimLeft s = (if spacePrefix s = 0 then s else TrimLeft (drop (spacePrefix s) s))"
  by pat_completeness auto
termination
  by (relation "measure length") (auto simp: spacePrefix_def split: list.splits if_splits)

function TrimRight :: "bytes \<Rightarrow> bytes" where
  "TrimRight s = (if spaceSuffix s = 0 then s else TrimRight (take (length s - spaceSuffix s) s))"
  by pat_completeness auto
termination
  by (relation "measure length") (auto simp: spaceSuffix_def split: if_splits)

definition TrimSpace :: "bytes \<Rightarrow> bytes" where
  "TrimSpace s = TrimRight (TrimLeft s)"

subsection \<open>\<open>strconv.Atoi\<close> and \<open>%d\<close>\<close>

definition isDigit :: "char \<Rightarrow> bool" where
  "isDigit c \<longleftrightarrow> (48::nat) \<le> of_char c \<and> of_char c \<le> (57::nat)"

definition digitVal :: "char \<Rightarrow> int" where
  "digitVal c = int (of_char c) - 48"

definition digitsVal :: "bytes \<Rightarrow> int" where
  "digitsVal ds = foldl (\<lambda>n ch. n * 10 + digitVal ch) 0 ds"

text \<open>
  \<open>strconv.Atoi\<close> on a platform with 64-bit \<open>int\<close>: an optional sign, then one or more
  decimal digits and nothing else, and a value that fits the type; \<open>None\<close> is a non-nil
  error (syntax or range).
\<close>

definition Atoi :: "bytes \<Rightarrow> int option" where
  "Atoi s =
     (let neg = (s \<noteq> [] \<and> hd s = CHR ''-'');
          ds = (if s \<noteq> [] \<and> (hd s = CHR ''-'' \<or> hd s = CHR ''+'') then tl s else s);
          v = (if neg then - digitsVal ds else digitsVal ds)
      in if ds = [] \<or> \<not> list_all isDigit ds then None
         else if v < - (2 ^ 63) \<or> 2 ^ 63 \<le> v then None
         else Some v)"

definition digitChar :: "nat \<Rightarrow> char" where
  "digitChar d = char_of (48 + d)"

function fmtNat :: "nat \<Rightarrow> bytes" where
  "fmtNat n = (if n < 10 then [digitChar n] else fmtNat (n div 10) @ [digitChar (n mod 10)])"
  by pat_completeness auto
termination
  by (relation "measure id") auto

text \<open>The verb \<open>%d\<close> of \<open>fmt.Sprintf\<close> on an \<open>int\<close>.\<close>

definition fmtInt :: "int \<Rightarrow> bytes" where
  "fmtInt i = (if i < 0 then CHR ''-'' # fmtNat (nat (- i)) else fmtNat (nat i))"

declare TrimLeft.simps [simp del] TrimRight.simps [simp del] fmtNat.simps [simp del]

section \<open>The socket\<close>

text \<open>
  The \<open>net.Conn\<close> of a session: the bytes written to the peer so far, whether writing on
  it fails, and whether it has been closed. A write that fails sends nothing.
\<close>

record netConn =
  written :: bytes
  broken :: bool
  shut :: bool

definition Write :: "netConn \<Rightarrow> bytes \<Rightarrow> netConn \<times> error option" where
  "Write nc bs =
     (if broken nc \<or> shut nc then (nc, Some NetError)
      else (nc\<lparr>written := written nc @ bs\<rparr>, None))"

definition netClose :: "netConn \<Rightarrow> netConn \<times> error option" where
  "netClose nc = (if shut nc then (nc, Some NetError) else (nc\<lparr>shut := True\<rparr>, None))"

section \<open>protocol.go: the frame codec\<close>

definition cmdQuery :: bytes where
  "cmdQuery = ''q:''"

definition cmdExecute :: bytes where
  "cmdExecute = ''x:''"

definition CRLF :: bytes where
  "CRLF = [CHR 0x0D, CHR 0x0A]"

text \<open>The local \<open>resp\<close> of \<open>sendCommand\<close>: \<open>fmt.Sprintf("$%d\r\n%s\r\n", len(message), message)\<close>.\<close>

definition commandFrame :: "bytes \<Rightarrow> bytes \<Rightarrow> bytes" where
  "commandFrame cmd sql =
     (let message = cmd @ sql
      in ''$'' @ fmtInt (int (length message)) @ CRLF @ message @ CRLF)"

definition sendCommand :: "netConn \<Rightarrow> bytes \<Rightarrow> bytes \<Rightarrow> netConn \<times> error option" where
  "sendCommand conn cmd sql = Write conn (commandFrame cmd sql)"

definition continuationMarker :: bytes where
  "continuationMarker = [CHR 0xFF, CHR 0xFF, CHR 0xFF, CHR 0xFF]"

text \<open>
  \<open>readResponse\<close> returns the response type, the data and the error, and leaves the
  reader after the bytes it consumed. \<open>make([]byte, length)\<close> panics on a negative
  length; the memory limit of the allocation is not modelled.
\<close>

definition readResponse :: "reader \<Rightarrow> (string \<times> bytes) outcome \<times> reader" where
  "readResponse reader =
     (case ReadByte reader of
        (Err e, rd) \<Rightarrow> (Err e, rd)
      | (Panic m, rd) \<Rightarrow> (Panic m, rd)
      | (Ok firstByte, rd) \<Rightarrow>
          if firstByte = CHR 0xFF then
            (case ReadFull 3 rd of
               (Err e, rd1) \<Rightarrow> (Err (FailedReadMarker e), rd1)
             | (Panic m, rd1) \<Rightarrow> (Panic m, rd1)
             | (Ok marker, rd1) \<Rightarrow>
                 if marker ! 0 \<noteq> CHR 0xFF \<or> marker ! 1 \<noteq> CHR 0xFF \<or> marker ! 2 \<noteq> CHR 0xFF
                 then (Err (InvalidMarker (marker ! 0) (marker ! 1) (marker ! 2)), rd1)
                 else (Ok (''arrow-stream'', continuationMarker), rd1))
          else if firstByte = CHR ''$'' then
            (case ReadString CHR 0x0A rd of
               (Err e, rd1) \<Rightarrow> (Err e, rd1)
             | (Panic m, rd1) \<Rightarrow> (Panic m, rd1)
             | (Ok line, rd1) \<Rightarrow>
                 let lengthStr = TrimSpace line in
                 (case Atoi lengthStr of
                    None \<Rightarrow> (Err (InvalidLength lengthStr), rd1)
                  | Some len \<Rightarrow>
                      if len = - 1 then (Ok (''null'', []), rd1)
                      else if len < 0 then (Panic ''makeslice: len out of range'', rd1)
                      else
                        (case ReadFull (nat len) rd1 of
                           (Err e, rd2) \<Rightarrow> (Err e, rd2)
                         | (Panic m, rd2) \<Rightarrow> (Panic m, rd2)
                         | (Ok data, rd2) \<Rightarrow>
                             (Ok (''bulk'', data), snd (ReadByte (snd (ReadByte rd2)))))))
          else if firstByte = CHR ''+'' then
            (case ReadString CHR 0x0A rd of
               (Err e, rd1) \<Rightarrow> (Err e, rd1)
             | (Panic m, rd1) \<Rightarrow> (Panic m, rd1)
             | (Ok line, rd1) \<Rightarrow> (Ok (''ok'', TrimSpace line), rd1))
          else if firstByte = CHR ''-'' then
            (case ReadString CHR 0x0A rd of
               (Err e, rd1) \<Rightarrow> (Err e, rd1)
             | (Panic m, rd1) \<Rightarrow> (Panic m, rd1)
             | (Ok line, rd1) \<Rightarrow> (Ok (''error'', TrimSpace line), rd1))
          else if firstByte = CHR '':'' then
            (case ReadString CHR 0x0A rd of
               (Err e, rd1) \<Rightarrow> (Err e, rd1)
             | (Panic m, rd1) \<Rightarrow> (Panic m, rd1)
             | (Ok line, rd1) \<Rightarrow> (Ok (''int'', TrimSpace line), rd1))
          else (Err (UnknownResponseType firstByte), rd))"

section \<open>Arrow records\<close>

text \<open>
  The Arrow library is outside the repository; what the driver uses of it is modelled
  here. An array (a column of a record) has a concrete Go type, on which
  \<open>getValueFromColumn\<close> switches, a validity bitmap and a slot per row; the slot of a
  null cell holds whatever the buffer holds.
\<close>

datatype time_unit = Second | Millisecond | Microsecond | Nanosecond

datatype arrow_type =
    Boolean | Int8 | Int16 | Int32 | Int64 | Uint8 | Uint16 | Uint32 | Uint64
  | Float32 | Float64 | String | Binary | Date32 | Date64
  | Timestamp time_unit
  | Decimal128 int                \<comment> \<open>the scale of the decimal type\<close>
  | Decimal256 int
  | OtherArray string             \<comment> \<open>any other array type, with its Go type name\<close>

datatype slot =
    SBool bool
  | SInt int                      \<comment> \<open>an integer, a date, a timestamp or an unscaled decimal\<close>
  | SFloat int                    \<comment> \<open>a floating-point number, by its bit pattern\<close>
  | SBytes bytes

record column =
  ctype :: arrow_type
  validity :: "bool list"
  slots :: "slot list"

text \<open>
  A value handed to \<open>database/sql\<close>: nil, the element \<open>arr.Value(i)\<close> of an array of the
  given type, the \<open>time.Time\<close> that \<open>ToTime\<close> makes of it, or the string that \<open>ToString\<close>
  makes of a decimal with its scale. The library's conversions are kept symbolic.
\<close>

datatype driver_value =
    Nil
  | Value arrow_type slot
  | ToTime arrow_type slot
  | ToString arrow_type slot

text \<open>
  A record lives at an address and carries a reference count, kept in a store of its
  own: \<open>Release\<close> decrements it. \<open>NumRows\<close> is the stored row count and \<open>NumCols\<close> the number
  of arrays.
\<close>

record arrow_record =
  addr :: nat
  schema :: "string list option"      \<comment> \<open>the field names; \<open>None\<close> is a nil schema\<close>
  arrs :: "column list"
  nrows :: nat

definition NumRows :: "arrow_record \<Rightarrow> nat" where
  "NumRows rec = nrows rec"

definition NumCols :: "arrow_record \<Rightarrow> nat" where
  "NumCols rec = length (arrs rec)"

type_synonym refcounts = "nat \<Rightarrow> int"

definition Release :: "arrow_record \<Rightarrow> refcounts \<Rightarrow> refcounts" where
  "Release rec rc = rc(addr rec := rc (addr rec) - 1)"

text \<open>
  The IPC stream reader, as a parameter: applied to a byte stream it tells whether
  \<open>ipc.NewReader\<close> succeeds, which records \<open>Next\<close> yields before it returns false, whether
  \<open>Err()\<close> is non-nil then, and how many bytes of the stream it has read.
\<close>

record ipc_run =
  opened :: bool
  batches :: "arrow_record list"
  failed :: bool
  consumed :: nat

type_synonym ipc_reader = "bytes \<Rightarrow> ipc_run"

text \<open>The loop \<open>for reader.Next() { records = append(records, rec) }\<close>.\<close>

definition collectRecords :: "arrow_record list \<Rightarrow> arrow_record list" where
  "collectRecords yielded = foldl (\<lambda>records rec. records @ [rec]) [] yielded"

definition parseArrowIPC :: "ipc_reader \<Rightarrow> bytes \<Rightarrow> arrow_record list outcome" where
  "parseArrowIPC ipc data =
     (if length data = 0 then Ok []
      else
        let run = ipc data in
        if \<not> opened run then Err FailedCreateIPCReader
        else
          let records = collectRecords (batches run) in
          if failed run then Err ErrorReadingIPCRecords else Ok records)"

text \<open>
  \<open>io.MultiReader(continuationReader, reader)\<close>: the four marker bytes, then the bytes
  of the buffered reader.
\<close>

definition combinedReader :: "reader \<Rightarrow> bytes" where
  "combinedReader reader = continuationMarker @ reader"

definition parseArrowIPCFromReader ::
  "ipc_reader \<Rightarrow> reader \<Rightarrow> arrow_record list outcome \<times> reader" where
  "parseArrowIPCFromReader ipc reader =
     (let run = ipc (combinedReader reader);
          reader' = drop (consumed run - length continuationMarker) reader
      in if \<not> opened run then (Err FailedCreateIPCReader, reader')
         else
           let records = collectRecords (batches run) in
           if failed run then (Err ErrorReadingIPCRecords, reader')
           else (Ok records, reader'))"

section \<open>result.go\<close>

record result =
  rowsAffected :: int

definition LastInsertId :: "result \<Rightarrow> int \<times> error option" where
  "LastInsertId r = (0, Some ErrSkip)"


section \<open>rows.go: the result cursor\<close>

record Rows =
  records :: "arrow_record list"
  recordIdx :: nat
  rowIdx :: nat
  columns :: "string list"
  rowsClosed :: bool                  \<comment> \<open>the field \<open>closed\<close> of \<open>Rows\<close>\<close>

definition newRowsFromArrow :: "arrow_record list \<Rightarrow> Rows" where
  "newRowsFromArrow recs =
     \<lparr>records = recs, recordIdx = 0, rowIdx = 0,
      columns = (case recs of
                   [] \<Rightarrow> []
                 | rec # _ \<Rightarrow> (case schema rec of None \<Rightarrow> [] | Some names \<Rightarrow> names)),
      rowsClosed = False\<rparr>"

definition Columns :: "Rows \<Rightarrow> string list" where
  "Columns r = columns r"

text \<open>
  \<open>getValueFromColumn\<close>: the null test comes first, for every array type; then the type
  switch. Reading a row the array does not have panics.
\<close>

definition getValueFromColumn :: "column \<Rightarrow> nat \<Rightarrow> driver_value outcome" where
  "getValueFromColumn col i =
     (if length (validity col) \<le> i then Panic ''index out of range''
      else if \<not> validity col ! i then Ok Nil
      else
        (case ctype col of
           OtherArray name \<Rightarrow> Err (UnsupportedArrowType name)
         | t \<Rightarrow>
             if length (slots col) \<le> i then Panic ''index out of range''
             else
               (case t of
                  Date32 \<Rightarrow> Ok (ToTime t (slots col ! i))
                | Date64 \<Rightarrow> Ok (ToTime t (slots col ! i))
                | Timestamp u \<Rightarrow> Ok (ToTime t (slots col ! i))
                | Decimal128 sc \<Rightarrow> Ok (ToString t (slots col ! i))
                | Decimal256 sc \<Rightarrow> Ok (ToString t (slots col ! i))
                | _ \<Rightarrow> Ok (Value t (slots col ! i)))))"

text \<open>
  The inner loop of \<open>Next\<close> over the columns of the current record, from column \<open>i\<close> on:
  \<open>dest[i] = val\<close> panics when \<open>dest\<close> is too short.
\<close>

fun fillDest ::
  "column list \<Rightarrow> nat \<Rightarrow> nat \<Rightarrow> driver_value list \<Rightarrow> unit outcome \<times> driver_value list" where
  "fillDest [] i row dest = (Ok (), dest)"
| "fillDest (col # cols) i row dest =
     (case getValueFromColumn col row of
        Err e \<Rightarrow> (Err e, dest)
      | Panic m \<Rightarrow> (Panic m, dest)
      | Ok val \<Rightarrow>
          if i < length dest then fillDest cols (Suc i) row (dest[i := val])
          else (Panic ''index out of range'', dest))"

text \<open>The loop \<open>for r.recordIdx < len(r.records)\<close> of \<open>Next\<close>.\<close>

function nextLoop :: "Rows \<Rightarrow> driver_value list \<Rightarrow> unit outcome \<times> Rows \<times> driver_value list" where
  "nextLoop r dest =
     (if recordIdx r < length (records r) then
        let record = records r ! recordIdx r in
        if rowIdx r < NumRows record then
          (case fillDest (arrs record) 0 (rowIdx r) dest of
             (Ok u, dest') \<Rightarrow> (Ok (), r\<lparr>rowIdx := rowIdx r + 1\<rparr>, dest')
           | (Err e, dest') \<Rightarrow> (Err e, r, dest')
           | (Panic m, dest') \<Rightarrow> (Panic m, r, dest'))
        else nextLoop (r\<lparr>recordIdx := recordIdx r + 1, rowIdx := 0\<rparr>) dest
      else (Err EOF, r, dest))"
  by pat_completeness auto
termination
  by (relation "measure (\<lambda>(r, dest). length (records r) - recordIdx r)") auto

declare nextLoop.simps [simp del]

definition Rows_Next :: "Rows \<Rightarrow> driver_value list \<Rightarrow> unit outcome \<times> Rows \<times> driver_value list" where
  "Rows_Next r dest = (if rowsClosed r then (Err EOF, r, dest) else nextLoop r dest)"

text \<open>\<open>Rows.Close\<close>, with the store of reference counts it releases into.\<close>

definition Rows_Close :: "Rows \<Rightarrow> refcounts \<Rightarrow> error option \<times> Rows \<times> refcounts" where
  "Rows_Close r rc =
     (if rowsClosed r then (None, r, rc)
      else (None, r\<lparr>rowsClosed := True, records := []\<rparr>, fold Release (records r) rc))"

section \<open>conn.go: the session\<close>

text \<open>
  \<open>Connector.Connect\<close> is the only place that builds a \<open>Conn\<close>, with the socket and a
  buffered reader over it; \<open>Close\<close> tests the socket for nil, so the field is optional
  here. Calling \<open>Write\<close> on a nil \<open>net.Conn\<close> panics.
\<close>

record Conn =
  tempTableQuery :: bool
  conn :: "netConn option"
  reader :: reader
  closed :: bool
  tx :: bool

definition connWrite :: "netConn option \<Rightarrow> bytes \<Rightarrow> bytes \<Rightarrow> unit outcome \<times> netConn option" where
  "connWrite nc cmd sql =
     (case nc of
        None \<Rightarrow> (Panic ''invalid memory address or nil pointer dereference'', None)
      | Some sock \<Rightarrow>
          (case sendCommand sock cmd sql of
             (sock', None) \<Rightarrow> (Ok (), Some sock')
           | (sock', Some e) \<Rightarrow> (Err e, Some sock')))"

definition ExecContext :: "ipc_reader \<Rightarrow> Conn \<Rightarrow> bytes \<Rightarrow> result outcome \<times> Conn" where
  "ExecContext ipc c query =
     (if closed c then (Err ErrBadConn, c)
      else
        (case connWrite (conn c) cmdExecute query of
           (Panic m, nc) \<Rightarrow> (Panic m, c\<lparr>conn := nc\<rparr>)
         | (Err e, nc) \<Rightarrow> (Err (FailedToSendCommand e), c\<lparr>conn := nc\<rparr>)
         | (Ok u, nc) \<Rightarrow>
             (case readResponse (reader c) of
                (Panic m, rd) \<Rightarrow> (Panic m, c\<lparr>conn := nc, reader := rd\<rparr>)
              | (Err e, rd) \<Rightarrow> (Err (FailedToReadResponse e), c\<lparr>conn := nc, reader := rd\<rparr>)
              | (Ok (respType, data), rd) \<Rightarrow>
                  if respType = ''error'' then (Err (LunaError data), c\<lparr>conn := nc, reader := rd\<rparr>)
                  else if respType = ''arrow-stream'' then
                    (case parseArrowIPCFromReader ipc rd of
                       (Panic m, rd') \<Rightarrow> (Panic m, c\<lparr>conn := nc, reader := rd'\<rparr>)
                     | (Err e, rd') \<Rightarrow>
                         (Err (FailedToParseArrowIPC e), c\<lparr>conn := nc, reader := rd'\<rparr>)
                     | (Ok discarded, rd') \<Rightarrow>
                         (Ok \<lparr>rowsAffected = 0\<rparr>, c\<lparr>conn := nc, reader := rd'\<rparr>))
                  else (Ok \<lparr>rowsAffected = 0\<rparr>, c\<lparr>conn := nc, reader := rd\<rparr>))))"

definition QueryContext :: "ipc_reader \<Rightarrow> Conn \<Rightarrow> bytes \<Rightarrow> Rows outcome \<times> Conn" where
  "QueryContext ipc c query =
     (if closed c then (Err ErrBadConn, c)
      else
        (case connWrite (conn c) cmdQuery query of
           (Panic m, nc) \<Rightarrow> (Panic m, c\<lparr>conn := nc\<rparr>)
         | (Err e, nc) \<Rightarrow> (Err (FailedToSendCommand e), c\<lparr>conn := nc\<rparr>)
         | (Ok u, nc) \<Rightarrow>
             (case readResponse (reader c) of
                (Panic m, rd) \<Rightarrow> (Panic m, c\<lparr>conn := nc, reader := rd\<rparr>)
              | (Err e, rd) \<Rightarrow> (Err (FailedToReadResponse e), c\<lparr>conn := nc, reader := rd\<rparr>)
              | (Ok (respType, data), rd) \<Rightarrow>
                  if respType = ''error'' then (Err (LunaError data), c\<lparr>conn := nc, reader := rd\<rparr>)
                  else if respType = ''arrow-stream'' then
                    (case parseArrowIPCFromReader ipc rd of
                       (Panic m, rd') \<Rightarrow> (Panic m, c\<lparr>conn := nc, reader := rd'\<rparr>)
                     | (Err e, rd') \<Rightarrow>
                         (Err (FailedToParseArrowIPC e), c\<lparr>conn := nc, reader := rd'\<rparr>)
                     | (Ok recs, rd') \<Rightarrow>
                         (Ok (newRowsFromArrow recs), c\<lparr>conn := nc, reader := rd'\<rparr>))
                  else
                    (case parseArrowIPC ipc data of
                       Panic m \<Rightarrow> (Panic m, c\<lparr>conn := nc, reader := rd\<rparr>)
                     | Err e \<Rightarrow> (Err (FailedToParseArrowIPC e), c\<lparr>conn := nc, reader := rd\<rparr>)
                     | Ok recs \<Rightarrow> (Ok (newRowsFromArrow recs), c\<lparr>conn := nc, reader := rd\<rparr>)))))"

definition Conn_Close :: "Conn \<Rightarrow> error option \<times> Conn" where
  "Conn_Close c =
     (if closed c then (Some ConnectionAlreadyClosed, c)
      else
        (case conn c of
           Some sock \<Rightarrow>
             (case netClose sock of (sock', e) \<Rightarrow> (e, c\<lparr>closed := True, conn := Some sock'\<rparr>))
         | None \<Rightarrow> (None, c\<lparr>closed := True\<rparr>)))"

section \<open>Transactions\<close>

text \<open>
  A \<open>tx\<close> holds a pointer to its session, which the caller holds as well; sessions
  live in a store, at addresses. \<open>BeginTx\<close> is called on the session at an address.
\<close>

type_synonym conns = "nat \<Rightarrow> Conn"

record Tx =
  txConn :: "nat option"              \<comment> \<open>the field \<open>c\<close> of \<open>tx\<close>; \<open>None\<close> is nil\<close>

definition BeginTx :: "ipc_reader \<Rightarrow> nat \<Rightarrow> conns \<Rightarrow> Tx outcome \<times> conns" where
  "BeginTx ipc p h =
     (if tx (h p) then (Err AlreadyOpenTransaction, h)
      else
        (case ExecContext ipc (h p) ''BEGIN TRANSACTION'' of
           (Err e, c') \<Rightarrow> (Err e, h(p := c'))
         | (Panic m, c') \<Rightarrow> (Panic m, h(p := c'))
         | (Ok res, c') \<Rightarrow> (Ok \<lparr>txConn = Some p\<rparr>, h(p := c'\<lparr>tx := True\<rparr>))))"

definition Commit :: "ipc_reader \<Rightarrow> Tx \<Rightarrow> conns \<Rightarrow> unit outcome \<times> Tx \<times> conns" where
  "Commit ipc t h =
     (case txConn t of
        None \<Rightarrow> (Panic ''database/sql/driver: misuse of duckdb driver: extra Commit'', t, h)
      | Some p \<Rightarrow>
          if \<not> tx (h p)
          then (Panic ''database/sql/driver: misuse of duckdb driver: extra Commit'', t, h)
          else
            (case ExecContext ipc ((h p)\<lparr>tx := False\<rparr>) ''COMMIT TRANSACTION'' of
               (Panic m, c') \<Rightarrow> (Panic m, t, h(p := c'))
             | (Err e, c') \<Rightarrow> (Err e, t\<lparr>txConn := None\<rparr>, h(p := c'))
             | (Ok res, c') \<Rightarrow> (Ok (), t\<lparr>txConn := None\<rparr>, h(p := c'))))"

definition Rollback :: "ipc_reader \<Rightarrow> Tx \<Rightarrow> conns \<Rightarrow> unit outcome \<times> Tx \<times> conns" where
  "Rollback ipc t h =
     (case txConn t of
        None \<Rightarrow> (Panic ''database/sql/driver: misuse of duckdb driver: extra Rollback'', t, h)
      | Some p \<Rightarrow>
          if \<not> tx (h p)
          then (Panic ''database/sql/driver: misuse of duckdb driver: extra Rollback'', t, h)
          else
            (case ExecContext ipc ((h p)\<lparr>tx := False\<rparr>) ''ROLLBACK'' of
               (Panic m, c') \<Rightarrow> (Panic m, t, h(p := c'))
             | (Err e, c') \<Rightarrow> (Err e, t\<lparr>txConn := None\<rparr>, h(p := c'))
             | (Ok res, c') \<Rightarrow> (Ok (), t\<lparr>txConn := None\<rparr>, h(p := c'))))"

section \<open>Iterating the result cursor\<close>

text \<open>
  \<open>nextN n\<close> calls \<open>Next\<close> \<open>n\<close> times in a row on the same cursor and the same destination
  slice, and lists the outcome of every call with the destination as the call left it.
\<close>

fun nextN ::
  "nat \<Rightarrow> Rows \<Rightarrow> driver_value list \<Rightarrow>
     (unit outcome \<times> driver_value list) list \<times> Rows \<times> driver_value list" where
  "nextN 0 r dest = ([], r, dest)"
| "nextN (Suc n) r dest =
     (case Rows_Next r dest of
        (out, r', dest') \<Rightarrow>
          (case nextN n r' dest' of
             (outs, r'', dest'') \<Rightarrow> ((out, dest') # outs, r'', dest'')))"

text \<open>
  The rows of a sequence of batches, in batch order and in row order within a batch; the
  cells of a row are what \<open>getValueFromColumn\<close> makes of them. A batch is extractable
  when \<open>getValueFromColumn\<close> returns a value for every cell of every row.
\<close>

definition cellValue :: "column \<Rightarrow> nat \<Rightarrow> driver_value" where
  "cellValue col i = (case getValueFromColumn col i of Ok v \<Rightarrow> v | _ \<Rightarrow> Nil)"

definition rowAt :: "arrow_record \<Rightarrow> nat \<Rightarrow> driver_value list" where
  "rowAt rec i = map (\<lambda>col. cellValue col i) (arrs rec)"

definition rowsOf :: "arrow_record \<Rightarrow> driver_value list list" where
  "rowsOf rec = map (rowAt rec) [0..<NumRows rec]"

definition allRows :: "arrow_record list \<Rightarrow> driver_value list list" where
  "allRows recs = concat (map rowsOf recs)"

definition cellOk :: "column \<Rightarrow> nat \<Rightarrow> bool" where
  "cellOk col i = (case getValueFromColumn col i of Ok v \<Rightarrow> True | _ \<Rightarrow> False)"

definition extractable :: "arrow_record \<Rightarrow> bool" where
  "extractable rec = list_all (\<lambda>i. list_all (\<lambda>col. cellOk col i) (arrs rec)) [0..<NumRows rec]"

text \<open>The rows a cursor has still to visit, and the outcomes that visiting them gives.\<close>

definition remainingRows :: "Rows \<Rightarrow> driver_value list list" where
  "remainingRows r =
     (if recordIdx r < length (records r)
      then drop (rowIdx r) (rowsOf (records r ! recordIdx r)) @
           allRows (drop (Suc (recordIdx r)) (records r))
      else [])"

fun expectedTrace ::
  "nat \<Rightarrow> driver_value list list \<Rightarrow> driver_value list \<Rightarrow> (unit outcome \<times> driver_value list) list" where
  "expectedTrace 0 rows dest = []"
| "expectedTrace (Suc n) [] dest = (Err EOF, dest) # expectedTrace n [] dest"
| "expectedTrace (Suc n) (row # rows) dest =
     (Ok (), row @ drop (length row) dest) # expectedTrace n rows (row @ drop (length row) dest)"

section \<open>The command frame, in the words of the specification\<close>

text \<open>
  The specification speaks of a Command of kind Query or Execute, of the prefix of each
  kind, and of the decimal length \<open>N\<close> of the frame. \<open>spec_decimal N n\<close> says that \<open>N\<close> is the
  decimal numeral of \<open>n\<close>: digits only, at least one, without a leading zero, of value \<open>n\<close>.
\<close>

datatype kind = Query | Execute

definition spec_prefix :: "kind \<Rightarrow> bytes" where
  "spec_prefix k = (case k of Query \<Rightarrow> ''q:'' | Execute \<Rightarrow> ''x:'')"

definition spec_decimal :: "bytes \<Rightarrow> nat \<Rightarrow> bool" where
  "spec_decimal N n \<longleftrightarrow>
     N \<noteq> [] \<and> list_all isDigit N \<and> digitsVal N = int n \<and> (hd N = CHR ''0'' \<longrightarrow> N = ''0'')"

text \<open>
  The frame of a Command in the words of the specification, given the numeral \<open>N\<close>:
  \<open>"$" + N + "\r\n" + prefix + sql + "\r\n"\<close>.
\<close>

definition spec_encode :: "kind \<Rightarrow> bytes \<Rightarrow> bytes \<Rightarrow> bytes" where
  "spec_encode k sql N = ''$'' @ N @ [CHR 0x0D, CHR 0x0A] @ spec_prefix k @ sql @ [CHR 0x0D, CHR 0x0A]"

section \<open>Sample inputs\<close>

text \<open>A session on an open socket with nothing left to read, and one that has been closed.\<close>

definition openSocket :: netConn where
  "openSocket = \<lparr>written = [], broken = False, shut = False\<rparr>"

definition readySession :: Conn where
  "readySession =
     \<lparr>tempTableQuery = False, conn = Some openSocket, reader = [], closed = False, tx = False\<rparr>"

definition closedSession :: Conn where
  "closedSession =
     \<lparr>tempTableQuery = False, conn = Some (openSocket\<lparr>shut := True\<rparr>), reader = [],
      closed = True, tx = False\<rparr>"

text \<open>An IPC reader that rejects every stream.\<close>

definition noIPC :: ipc_reader where
  "noIPC stream = \<lparr>opened = False, batches = [], failed = False, consumed = 0\<rparr>"

text \<open>Two batches of one 64-bit integer column, with a null cell, and a batch with a list column.\<close>

definition intColumn :: column where
  "intColumn = \<lparr>ctype = Int64, validity = [True, False], slots = [SInt 7, SInt 0]\<rparr>"

definition batchA :: arrow_record where
  "batchA = \<lparr>addr = 1, schema = Some [''id''], arrs = [intColumn], nrows = 2\<rparr>"

definition batchB :: arrow_record where
  "batchB =
     \<lparr>addr = 2, schema = Some [''id''],
      arrs = [\<lparr>ctype = Int64, validity = [True], slots = [SInt 9]\<rparr>], nrows = 1\<rparr>"

definition listColumn :: column where
  "listColumn = \<lparr>ctype = OtherArray ''*array.List'', validity = [True, False], slots = []\<rparr>"

definition listBatch :: arrow_record where
  "listBatch = \<lparr>addr = 3, schema = Some [''v''], arrs = [listColumn], nrows = 1\<rparr>"

text \<open>An IPC reader that reads every stream to its end and yields the two integer batches.\<close>

definition sampleIPC :: ipc_reader where
  "sampleIPC stream =
     \<lparr>opened = True, batches = [batchA, batchB], failed = False, consumed = length stream\<rparr>"

section \<open>Facts about the readers, trimming and decimal numerals\<close>

lemma ReadString_line:
  "d \<notin> set line \<Longrightarrow> ReadString d (line @ d # rest) = (Ok (line @ [d]), rest)"
proof -
  assume d: "d \<notin> set line"
  have t: "takeWhile (\<lambda>c. c \<noteq> d) (line @ d # rest) = line"
    using d by (induction line) auto
  have r: "dropWhile (\<lambda>c. c \<noteq> d) (line @ d # rest) = d # rest"
    using d by (induction line) auto
  show ?thesis
    by (simp add: ReadString_def t r)
qed

lemma spaceSuffix_TrimRight: "spaceSuffix (TrimRight s) = 0"
  by (induction s rule: TrimRight.induct) (subst TrimRight.simps, simp)

lemma spacePrefix_TrimLeft: "spacePrefix (TrimLeft s) = 0"
  by (induction s rule: TrimLeft.induct) (subst TrimLeft.simps, simp)



lemma readResponse_int:
  "CHR 0x0A \<notin> set line \<Longrightarrow>
   readResponse (CHR '':'' # line @ CHR 0x0A # rest) = (Ok (''int'', TrimSpace (line @ [CHR 0x0A])), rest)"
  by (simp add: readResponse_def ReadString_line)

lemma readResponse_marker:
  "readResponse (CHR 0xFF # b1 # b2 # b3 # rest) =
     (if b1 = CHR 0xFF \<and> b2 = CHR 0xFF \<and> b3 = CHR 0xFF
      then (Ok (''arrow-stream'', continuationMarker), rest)
      else (Err (InvalidMarker b1 b2 b3), rest))"
  by (simp add: readResponse_def ReadFull_def)


lemma digitChar_code: "d < 10 \<Longrightarrow> of_char (digitChar d) = 48 + d"
  by (simp add: digitChar_def)

lemma isDigit_digitChar: "d < 10 \<Longrightarrow> isDigit (digitChar d)"
  by (simp add: isDigit_def digitChar_code)

lemma digitVal_digitChar: "d < 10 \<Longrightarrow> digitVal (digitChar d) = int d"
  by (simp add: digitVal_def digitChar_code)

lemma digitsVal_snoc: "digitsVal (ds @ [c]) = digitsVal ds * 10 + digitVal c"
  by (simp add: digitsVal_def)

lemma fmtNat_digits: "fmtNat n \<noteq> [] \<and> list_all isDigit (fmtNat n) \<and> digitsVal (fmtNat n) = int n"
proof (induction n rule: fmtNat.induct)
  case (1 n)
  show ?case
  proof (cases "n < 10")
    case True
    then show ?thesis
      by (subst (1 2 3) fmtNat.simps) (simp add: isDigit_digitChar digitVal_digitChar digitsVal_def)
  next
    case False
    have "int (n div 10) * 10 + int (n mod 10) = int n"
      by presburger
    with False 1 show ?thesis
      by (subst (1 2 3) fmtNat.simps)
         (simp add: isDigit_digitChar digitVal_digitChar digitsVal_snoc)
  qed
qed










section \<open>Closing a session twice\<close>

text \<open>
  C3, as stated, fails: \<open>Close\<close> on a session that is already closed returns the error
  "luna: connection already closed".
\<close>

theorem Conn_Close_closed_counterexample:
  "Conn_Close closedSession = (Some ConnectionAlreadyClosed, closedSession)"
  by (simp add: Conn_Close_def closedSession_def)

text \<open>
  C3, amended: for every session with \<open>closed = true\<close>, \<open>Close\<close> returns the error
  "luna: connection already closed" and leaves the session unchanged.
\<close>

theorem Conn_Close_closed:
  "closed c \<Longrightarrow> Conn_Close c = (Some ConnectionAlreadyClosed, c)"
  by (simp add: Conn_Close_def)

theorem Conn_Close_closed_witness:
  "closed closedSession \<and> Conn_Close closedSession = (Some ConnectionAlreadyClosed, closedSession)"
proof -
  have c: "closed closedSession"
    by (simp add: closedSession_def)
  from Conn_Close_closed [OF c] c show ?thesis
    by simp
qed

section \<open>Misuse of transactions\<close>

text \<open>
  C9, as stated, fails: \<open>Commit\<close> on a transaction whose session has no transaction open
  panics; it does not return an error.
\<close>

theorem Commit_without_tx_counterexample:
  "Commit noIPC \<lparr>txConn = Some 0\<rparr> (\<lambda>p. readySession) =
     (Panic ''database/sql/driver: misuse of duckdb driver: extra Commit'',
      \<lparr>txConn = Some 0\<rparr>, (\<lambda>p. readySession))"
  by (simp add: Commit_def readySession_def)

text \<open>
  C9, amended: \<open>BeginTx\<close> on a session whose transaction flag is set returns the error
  "luna: there is already an open transaction", without a panic and without touching the
  session; \<open>Commit\<close> and \<open>Rollback\<close> on a transaction that has no session, or whose
  session has no transaction open, panic and change nothing.
\<close>

theorem tx_misuse:
  "(tx (h p) \<longrightarrow> BeginTx ipc p h = (Err AlreadyOpenTransaction, h)) \<and>
   (txConn t = None \<or> (\<exists>q. txConn t = Some q \<and> \<not> tx (h q)) \<longrightarrow>
      Commit ipc t h =
        (Panic ''database/sql/driver: misuse of duckdb driver: extra Commit'', t, h) \<and>
      Rollback ipc t h =
        (Panic ''database/sql/driver: misuse of duckdb driver: extra Rollback'', t, h))"
  by (auto simp: BeginTx_def Commit_def Rollback_def)

theorem tx_misuse_witness:
  "BeginTx noIPC 0 (\<lambda>p. readySession\<lparr>tx := True\<rparr>) =
     (Err AlreadyOpenTransaction, (\<lambda>p. readySession\<lparr>tx := True\<rparr>)) \<and>
   Rollback noIPC \<lparr>txConn = Some 0\<rparr> (\<lambda>p. readySession) =
     (Panic ''database/sql/driver: misuse of duckdb driver: extra Rollback'',
      \<lparr>txConn = Some 0\<rparr>, (\<lambda>p. readySession))"
  using tx_misuse [of "\<lambda>p. readySession\<lparr>tx := True\<rparr>" 0 noIPC "\<lparr>txConn = Some 0\<rparr>"]
        tx_misuse [of "\<lambda>p. readySession" 0 noIPC "\<lparr>txConn = Some 0\<rparr>"]
  by (simp add: readySession_def)

section \<open>Null cells and unsupported column types\<close>

text \<open>
  C7, as stated, fails: a null cell of an unsupported column type is extracted as nil,
  with no error.
\<close>

theorem getValueFromColumn_null_unsupported_counterexample:
  "getValueFromColumn listColumn 1 = Ok Nil"
  by (simp add: getValueFromColumn_def listColumn_def)

text \<open>
  C7, amended: a cell that the null bitmap marks absent is extracted as nil, whatever
  the type of the column, supported or not, and so never as a value of that type; a
  cell that is present in a column of a type outside the supported set fails with the
  error "unsupported Arrow type".
\<close>

theorem getValueFromColumn_null_and_unsupported:
  "i < length (validity col) \<Longrightarrow>
     (\<not> validity col ! i \<longrightarrow>
        getValueFromColumn col i = Ok Nil \<and>
        (\<forall>t s. getValueFromColumn col i \<noteq> Ok (Value t s))) \<and>
     (validity col ! i \<longrightarrow>
        (\<forall>name. ctype col = OtherArray name \<longrightarrow>
           getValueFromColumn col i = Err (UnsupportedArrowType name)))"
  by (simp add: getValueFromColumn_def)

theorem getValueFromColumn_null_and_unsupported_witness:
  "getValueFromColumn intColumn 1 = Ok Nil \<and>
   getValueFromColumn intColumn 1 \<noteq> Ok (Value Int64 (SInt 0)) \<and>
   getValueFromColumn listColumn 0 = Err (UnsupportedArrowType ''*array.List'')"
  using getValueFromColumn_null_and_unsupported [of 1 intColumn]
        getValueFromColumn_null_and_unsupported [of 0 listColumn]
  by (simp add: intColumn_def listColumn_def)

section \<open>Closing a result cursor\<close>

lemma fold_Release:
  "fold Release recs rc a = rc a - int (length (filter (\<lambda>rec. addr rec = a) recs))"
  by (induction recs arbitrary: rc) (simp_all add: Release_def)

text \<open>
  C10: whatever the position of the cursor, \<open>Close\<close> returns no error and leaves the
  cursor closed, and a further \<open>Close\<close> returns no error and changes neither the cursor
  nor any reference count. On a cursor that is already closed \<open>Close\<close> changes nothing; on
  an open one it drops the batches and lowers the reference count at every address by
  one for each batch the cursor held there.
\<close>

theorem Rows_Close_idempotent:
  "(case Rows_Close r rc of
      (e1, r1, rc1) \<Rightarrow>
        e1 = None \<and> rowsClosed r1 \<and> Rows_Close r1 rc1 = (None, r1, rc1) \<and>
        (if rowsClosed r then r1 = r \<and> rc1 = rc
         else records r1 = [] \<and>
              (\<forall>a. rc1 a = rc a - int (length (filter (\<lambda>rec. addr rec = a) (records r))))))"
  by (simp add: Rows_Close_def fold_Release)

theorem Rows_Close_idempotent_witness:
  "(case Rows_Close ((newRowsFromArrow [batchA, batchB])\<lparr>rowIdx := 1\<rparr>) (\<lambda>a. 1) of
      (e1, r1, rc1) \<Rightarrow>
        e1 = None \<and> rowsClosed r1 \<and> records r1 = [] \<and> rc1 1 = 0 \<and> rc1 2 = 0 \<and> rc1 3 = 1 \<and>
        Rows_Close r1 rc1 = (None, r1, rc1))"
  using Rows_Close_idempotent [of "(newRowsFromArrow [batchA, batchB])\<lparr>rowIdx := 1\<rparr>" "\<lambda>a. 1"]
  by (auto simp: newRowsFromArrow_def batchA_def batchB_def split: prod.splits if_splits)

section \<open>Dispatch on the first byte\<close>




section \<open>The integer response\<close>

text \<open>
  C8, as stated, fails: the payload of an "int" response is not parsed; a line that is
  no decimal integer is returned as it is, without an error.
\<close>

theorem readResponse_int_unparsed_counterexample:
  "readResponse ('':abc'' @ CRLF) = (Ok (''int'', ''abc''), []) \<and> Atoi ''abc'' = None"
  by code_simp

text \<open>
  C8, amended: when the first byte is \<open>:\<close>, the decoder reads the rest of the line, trims
  the white space around it, and returns an "int" response whose payload is the trimmed
  text of the line, unparsed; the payload does not end in white space.
\<close>

theorem readResponse_int_payload:
  "CHR 0x0A \<notin> set line \<Longrightarrow>
     readResponse (CHR '':'' # line @ CHR 0x0A # rest) =
       (Ok (''int'', TrimSpace (line @ [CHR 0x0A])), rest) \<and>
     spaceSuffix (TrimSpace (line @ [CHR 0x0A])) = 0"
  by (simp add: readResponse_int TrimSpace_def spaceSuffix_TrimRight)

theorem readResponse_int_payload_witness:
  "readResponse ('': -42 '' @ CRLF @ ''+OK'') = (Ok (''int'', ''-42''), ''+OK'')"
proof -
  have trim: "TrimSpace [CHR '' '', CHR ''-'', CHR ''4'', CHR ''2'', CHR '' '', CHR 0x0D, CHR 0x0A] = ''-42''"
    by code_simp
  show ?thesis
    using readResponse_int_payload [of "'' -42 '' @ [CHR 0x0D]" "''+OK''"]
    by (simp add: trim CRLF_def)
qed

section \<open>The continuation marker\<close>

lemma collectRecords_all: "collectRecords yielded = yielded"
proof -
  have "foldl (\<lambda>records rec. records @ [rec]) acc yielded = acc @ yielded" for acc
    by (induction yielded arbitrary: acc) simp_all
  then show ?thesis
    by (simp add: collectRecords_def)
qed

text \<open>
  C5: after a first byte 0xFF the decoder reads three more bytes. When all three are
  0xFF it returns "arrow-stream" with the reader after these four bytes, and the stream
  the batch decoder is then given, by \<open>parseArrowIPCFromReader\<close> and by a query on a session
  that reads this stream, is the original stream from the marker on; when one of the
  three differs from 0xFF, decoding fails with the error "invalid continuation marker".
\<close>

theorem readResponse_marker_handoff:
  "readResponse (CHR 0xFF # b1 # b2 # b3 # rest) =
     (if b1 = CHR 0xFF \<and> b2 = CHR 0xFF \<and> b3 = CHR 0xFF
      then (Ok (''arrow-stream'', continuationMarker), rest)
      else (Err (InvalidMarker b1 b2 b3), rest)) \<and>
   (b1 = CHR 0xFF \<and> b2 = CHR 0xFF \<and> b3 = CHR 0xFF \<longrightarrow>
      combinedReader rest = CHR 0xFF # b1 # b2 # b3 # rest \<and>
      parseArrowIPCFromReader ipc rest =
        (let run = ipc (CHR 0xFF # b1 # b2 # b3 # rest)
         in (if \<not> opened run then Err FailedCreateIPCReader
             else if failed run then Err ErrorReadingIPCRecords
             else Ok (batches run),
             drop (consumed run - 4) rest)) \<and>
      (\<not> closed c \<and> conn c = Some sock \<and> \<not> broken sock \<and> \<not> shut sock \<and>
       reader c = CHR 0xFF # b1 # b2 # b3 # rest \<longrightarrow>
         fst (QueryContext ipc c query) =
           (let run = ipc (reader c)
            in if \<not> opened run then Err (FailedToParseArrowIPC FailedCreateIPCReader)
               else if failed run then Err (FailedToParseArrowIPC ErrorReadingIPCRecords)
               else Ok (newRowsFromArrow (batches run)))))"
proof -
  have parse: "parseArrowIPCFromReader ipc rest =
        (let run = ipc (continuationMarker @ rest)
         in (if \<not> opened run then Err FailedCreateIPCReader
             else if failed run then Err ErrorReadingIPCRecords
             else Ok (batches run),
             drop (consumed run - 4) rest))"
  proof -
    have four: "length continuationMarker = 4"
      by (simp add: continuationMarker_def)
    show ?thesis
      unfolding parseArrowIPCFromReader_def combinedReader_def collectRecords_all four Let_def
      by simp
  qed
  have query: "fst (QueryContext ipc c query) =
           (let run = ipc (reader c)
            in if \<not> opened run then Err (FailedToParseArrowIPC FailedCreateIPCReader)
               else if failed run then Err (FailedToParseArrowIPC ErrorReadingIPCRecords)
               else Ok (newRowsFromArrow (batches run)))"
    if "\<not> closed c" "conn c = Some sock" "\<not> broken sock" "\<not> shut sock"
       "reader c = continuationMarker @ rest"
    using that
    by (simp add: QueryContext_def connWrite_def sendCommand_def Write_def parse Let_def
          readResponse_marker continuationMarker_def)
  show ?thesis
    using parse query
    by (simp add: readResponse_marker combinedReader_def continuationMarker_def)
qed


theorem readResponse_marker_handoff_witness:
  "readResponse (continuationMarker @ ''stream'') =
     (Ok (''arrow-stream'', continuationMarker), ''stream'') \<and>
   combinedReader ''stream'' = continuationMarker @ ''stream'' \<and>
   readResponse (CHR 0xFF # CHR 0xFF # CHR 0x00 # CHR 0xFF # ''stream'') =
     (Err (InvalidMarker CHR 0xFF CHR 0x00 CHR 0xFF), ''stream'') \<and>
   fst (QueryContext sampleIPC (readySession\<lparr>reader := continuationMarker @ ''stream''\<rparr>) ''SELECT 1'') =
     Ok (newRowsFromArrow [batchA, batchB])"
  using readResponse_marker_handoff
          [of "CHR 0xFF" "CHR 0xFF" "CHR 0xFF" "''stream''" sampleIPC
              "readySession\<lparr>reader := continuationMarker @ ''stream''\<rparr>" openSocket "''SELECT 1''"]
        readResponse_marker_handoff [of "CHR 0xFF" "CHR 0x00" "CHR 0xFF" "''stream''"]
  by (simp add: continuationMarker_def readySession_def openSocket_def sampleIPC_def)

section \<open>The command frame\<close>

lemma fmtNat_no_leading_zero: "hd (fmtNat n) = CHR ''0'' \<Longrightarrow> fmtNat n = ''0''"
proof (induction n rule: less_induct)
  case (less n)
  show ?case
  proof (cases "n < 10")
    case True
    with less.prems have "digitChar n = CHR ''0''"
      by (subst (asm) fmtNat.simps) simp
    then have "(of_char (digitChar n) :: nat) = 48"
      by simp
    with True have "n = 0"
      by (simp add: digitChar_code)
    moreover have "fmtNat 0 = ''0''"
      by code_simp
    ultimately show ?thesis
      by simp
  next
    case False
    let ?m = "n div 10"
    have m: "0 < ?m" "?m < n"
      using False by simp_all
    have ne: "fmtNat ?m \<noteq> []"
      using fmtNat_digits by blast
    have "hd (fmtNat n) = hd (fmtNat ?m)"
      using False ne by (subst fmtNat.simps) simp
    with less.prems have "hd (fmtNat ?m) = CHR ''0''"
      by simp
    with less.IH m(2) have "fmtNat ?m = ''0''"
      by blast
    moreover have "digitsVal (fmtNat ?m) = int ?m"
      using fmtNat_digits by blast
    ultimately have "int ?m = 0"
      by (simp add: digitsVal_def digitVal_def)
    with m(1) show ?thesis
      by simp
  qed
qed

lemma spec_decimal_fmtNat: "spec_decimal (fmtNat n) n"
  using fmtNat_digits [of n] fmtNat_no_leading_zero [of n] by (simp add: spec_decimal_def)

lemma commandFrame_spec:
  "commandFrame (spec_prefix k) sql = spec_encode k sql (fmtNat (length (spec_prefix k @ sql)))"
  by (simp add: commandFrame_def spec_encode_def fmtInt_def CRLF_def)

lemma ExecContext_sends:
  "\<not> closed c \<Longrightarrow> conn c = Some sock \<Longrightarrow> \<not> broken sock \<Longrightarrow> \<not> shut sock \<Longrightarrow>
   conn (snd (ExecContext ipc c sql)) = Some (sock\<lparr>written := written sock @ commandFrame cmdExecute sql\<rparr>)"
  by (simp add: ExecContext_def connWrite_def sendCommand_def Write_def
           split: prod.splits outcome.splits)

lemma QueryContext_sends:
  "\<not> closed c \<Longrightarrow> conn c = Some sock \<Longrightarrow> \<not> broken sock \<Longrightarrow> \<not> shut sock \<Longrightarrow>
   conn (snd (QueryContext ipc c sql)) = Some (sock\<lparr>written := written sock @ commandFrame cmdQuery sql\<rparr>)"
  by (simp add: QueryContext_def connWrite_def sendCommand_def Write_def
           split: prod.splits outcome.splits)

text \<open>
  C6: on a socket that accepts the write, \<open>sendCommand\<close> with the prefix of a Query or of
  an Execute command writes exactly \<open>$\<close>, the decimal numeral \<open>N\<close> of the byte length of
  prefix and SQL text together, CR LF, the prefix, the SQL text, and CR LF; the prefixes
  are the constants \<open>cmdQuery\<close> and \<open>cmdExecute\<close>, and on an open session \<open>QueryContext\<close>
  sends the frame of a Query and \<open>ExecContext\<close> the frame of an Execute.
\<close>

theorem sendCommand_frame:
  "\<not> broken sock \<Longrightarrow> \<not> shut sock \<Longrightarrow>
     cmdQuery = spec_prefix Query \<and> cmdExecute = spec_prefix Execute \<and>
     spec_decimal (fmtNat (length (spec_prefix k @ sql))) (length (spec_prefix k @ sql)) \<and>
     sendCommand sock (spec_prefix k) sql =
       (sock\<lparr>written := written sock @
                 spec_encode k sql (fmtNat (length (spec_prefix k @ sql)))\<rparr>, None) \<and>
     (\<not> closed c \<and> conn c = Some sock \<longrightarrow>
        conn (snd (QueryContext ipc c sql)) =
          Some (sock\<lparr>written := written sock @
                   spec_encode Query sql (fmtNat (length (spec_prefix Query @ sql)))\<rparr>) \<and>
        conn (snd (ExecContext ipc c sql)) =
          Some (sock\<lparr>written := written sock @
                   spec_encode Execute sql (fmtNat (length (spec_prefix Execute @ sql)))\<rparr>))"
proof -
  assume sock: "\<not> broken sock" "\<not> shut sock"
  have q: "cmdQuery = spec_prefix Query" and x: "cmdExecute = spec_prefix Execute"
    by (simp_all add: cmdQuery_def cmdExecute_def spec_prefix_def)
  have send: "sendCommand sock (spec_prefix k) sql =
       (sock\<lparr>written := written sock @
                 spec_encode k sql (fmtNat (length (spec_prefix k @ sql)))\<rparr>, None)"
    using sock by (simp add: sendCommand_def Write_def commandFrame_spec)
  show ?thesis
    using q x send spec_decimal_fmtNat [of "length (spec_prefix k @ sql)"]
          QueryContext_sends [OF _ _ sock, of c ipc sql] ExecContext_sends [OF _ _ sock, of c ipc sql]
          commandFrame_spec [of Query sql] commandFrame_spec [of Execute sql]
    by simp
qed

theorem sendCommand_frame_witness:
  "sendCommand openSocket ''q:'' ''SELECT 1+1'' =
     (openSocket\<lparr>written := ''$12'' @ CRLF @ ''q:SELECT 1+1'' @ CRLF\<rparr>, None) \<and>
   spec_decimal ''12'' 12 \<and>
   conn (snd (ExecContext noIPC readySession ''DROP TABLE t'')) =
     Some (openSocket\<lparr>written := ''$14'' @ CRLF @ ''x:DROP TABLE t'' @ CRLF\<rparr>)"
proof -
  have sock: "\<not> broken openSocket" "\<not> shut openSocket"
    by (simp_all add: openSocket_def)
  have ready: "\<not> closed readySession \<and> conn readySession = Some openSocket"
    by (simp add: readySession_def)
  have n12: "fmtNat (length (spec_prefix Query @ ''SELECT 1+1'')) = ''12''"
    by code_simp
  have l12: "length (spec_prefix Query @ ''SELECT 1+1'') = 12"
    by code_simp
  have n14: "fmtNat (length (spec_prefix Execute @ ''DROP TABLE t'')) = ''14''"
    by code_simp
  note query = sendCommand_frame [OF sock, of Query "''SELECT 1+1''" readySession noIPC]
  note exec = sendCommand_frame [OF sock, of Execute "''DROP TABLE t''" readySession noIPC]
  have "sendCommand openSocket (spec_prefix Query) ''SELECT 1+1'' =
          (openSocket\<lparr>written := written openSocket @ spec_encode Query ''SELECT 1+1'' ''12''\<rparr>, None)"
    using query unfolding n12 by blast
  then have one: "sendCommand openSocket ''q:'' ''SELECT 1+1'' =
     (openSocket\<lparr>written := ''$12'' @ CRLF @ ''q:SELECT 1+1'' @ CRLF\<rparr>, None)"
    by (simp add: spec_prefix_def spec_encode_def CRLF_def openSocket_def)
  have f12: "fmtNat 12 = ''12''"
    by code_simp
  have two: "spec_decimal ''12'' 12"
    using query unfolding l12 f12 by blast
  have "conn (snd (ExecContext noIPC readySession ''DROP TABLE t'')) =
          Some (openSocket\<lparr>written := written openSocket @ spec_encode Execute ''DROP TABLE t'' ''14''\<rparr>)"
    using exec ready unfolding n14 by blast
  then have three: "conn (snd (ExecContext noIPC readySession ''DROP TABLE t'')) =
     Some (openSocket\<lparr>written := ''$14'' @ CRLF @ ''x:DROP TABLE t'' @ CRLF\<rparr>)"
    by (simp add: spec_prefix_def spec_encode_def CRLF_def openSocket_def)
  from one two three show ?thesis
    by blast
qed

section \<open>Iterating over the batches\<close>

lemma fillDest_ok:
  "list_all (\<lambda>col. cellOk col i) cols \<Longrightarrow> j + length cols \<le> length dest \<Longrightarrow>
   fillDest cols j i dest =
     (Ok (), take j dest @ map (\<lambda>col. cellValue col i) cols @ drop (j + length cols) dest)"
proof (induction cols arbitrary: j dest)
  case Nil
  then show ?case by simp
next
  case (Cons col cols)
  from Cons.prems(1) obtain v where v: "getValueFromColumn col i = Ok v"
    by (auto simp: cellOk_def split: outcome.splits)
  then have cv: "cellValue col i = v"
    by (simp add: cellValue_def)
  have j: "j < length dest"
    using Cons.prems(2) by simp
  have "fillDest cols (Suc j) i (dest[j := v]) =
     (Ok (), take (Suc j) (dest[j := v]) @ map (\<lambda>col. cellValue col i) cols @
        drop (Suc j + length cols) (dest[j := v]))"
    using Cons.prems by (intro Cons.IH) simp_all
  moreover have "take (Suc j) (dest[j := v]) = take j dest @ [v]"
    using j by (simp add: take_Suc_conv_app_nth)
  ultimately show ?case
    using j by (simp add: v cv)
qed

lemma nextLoop_step:
  assumes "list_all extractable (records r)"
      and "list_all (\<lambda>rec. NumCols rec \<le> length dest) (records r)"
  shows "(remainingRows r = [] \<longrightarrow>
            (\<exists>r'. nextLoop r dest = (Err EOF, r', dest) \<and> records r' = records r \<and>
                  rowsClosed r' = rowsClosed r \<and> remainingRows r' = [])) \<and>
         (\<forall>row rest. remainingRows r = row # rest \<longrightarrow>
            (\<exists>r'. nextLoop r dest = (Ok (), r', row @ drop (length row) dest) \<and>
                  records r' = records r \<and> rowsClosed r' = rowsClosed r \<and>
                  remainingRows r' = rest))"
  using assms
proof (induction r dest rule: nextLoop.induct)
  case (1 r dest)
  show ?case
  proof (cases "recordIdx r < length (records r)")
    case False
    then have "nextLoop r dest = (Err EOF, r, dest)"
      by (subst nextLoop.simps) simp
    with False show ?thesis
      by (simp add: remainingRows_def)
  next
    case inrange: True
    let ?rec = "records r ! recordIdx r"
    have mem: "?rec \<in> set (records r)"
      using inrange by simp
    show ?thesis
    proof (cases "rowIdx r < NumRows ?rec")
      case True
      have ok: "list_all (\<lambda>col. cellOk col (rowIdx r)) (arrs ?rec)"
        using "1.prems"(1) mem True by (auto simp: extractable_def list_all_iff)
      have wide: "0 + length (arrs ?rec) \<le> length dest"
        using "1.prems"(2) mem by (auto simp: list_all_iff NumCols_def)
      have fill: "fillDest (arrs ?rec) 0 (rowIdx r) dest =
          (Ok (), rowAt ?rec (rowIdx r) @ drop (length (rowAt ?rec (rowIdx r))) dest)"
        using fillDest_ok [OF ok wide] by (simp add: rowAt_def)
      have rem: "remainingRows r = rowAt ?rec (rowIdx r) #
          (drop (Suc (rowIdx r)) (rowsOf ?rec) @ allRows (drop (Suc (recordIdx r)) (records r)))"
        using inrange True
        by (simp add: remainingRows_def rowsOf_def flip: Cons_nth_drop_Suc)
      have nl: "nextLoop r dest =
          (Ok (), r\<lparr>rowIdx := Suc (rowIdx r)\<rparr>,
           rowAt ?rec (rowIdx r) @ drop (length (rowAt ?rec (rowIdx r))) dest)"
        using inrange True by (subst nextLoop.simps) (simp add: fill Let_def)
      have rem': "remainingRows (r\<lparr>rowIdx := Suc (rowIdx r)\<rparr>) =
          drop (Suc (rowIdx r)) (rowsOf ?rec) @ allRows (drop (Suc (recordIdx r)) (records r))"
        using inrange by (simp add: remainingRows_def)
      show ?thesis
        by (simp add: rem nl rem')
    next
      case False
      let ?r2 = "r\<lparr>recordIdx := recordIdx r + 1, rowIdx := 0\<rparr>"
      have rem: "remainingRows ?r2 = remainingRows r"
        using inrange False
        by (auto simp: remainingRows_def rowsOf_def allRows_def simp flip: Cons_nth_drop_Suc)
      have step: "nextLoop r dest = nextLoop ?r2 dest"
        using inrange False by (subst nextLoop.simps) (simp add: Let_def)
      have "(remainingRows ?r2 = [] \<longrightarrow>
            (\<exists>r'. nextLoop ?r2 dest = (Err EOF, r', dest) \<and> records r' = records ?r2 \<and>
                  rowsClosed r' = rowsClosed ?r2 \<and> remainingRows r' = [])) \<and>
         (\<forall>row rest. remainingRows ?r2 = row # rest \<longrightarrow>
            (\<exists>r'. nextLoop ?r2 dest = (Ok (), r', row @ drop (length row) dest) \<and>
                  records r' = records ?r2 \<and> rowsClosed r' = rowsClosed ?r2 \<and>
                  remainingRows r' = rest))"
        using inrange False "1.prems" by (intro "1.IH") simp_all
      then show ?thesis
        unfolding rem step by simp
    qed
  qed
qed

lemma Rows_Next_step:
  assumes "\<not> rowsClosed r" "list_all extractable (records r)"
      and "list_all (\<lambda>rec. NumCols rec \<le> length dest) (records r)"
  shows "(remainingRows r = [] \<longrightarrow>
            (\<exists>r'. Rows_Next r dest = (Err EOF, r', dest) \<and> records r' = records r \<and>
                  \<not> rowsClosed r' \<and> remainingRows r' = [])) \<and>
         (\<forall>row rest. remainingRows r = row # rest \<longrightarrow>
            (\<exists>r'. Rows_Next r dest = (Ok (), r', row @ drop (length row) dest) \<and>
                  records r' = records r \<and> \<not> rowsClosed r' \<and> remainingRows r' = rest))"
  using nextLoop_step [OF assms(2,3)] assms(1)
  by (simp add: Rows_Next_def)

lemma length_rowAt: "length (rowAt rec i) = NumCols rec"
  by (simp add: rowAt_def NumCols_def)

lemma remainingRows_width:
  "list_all (\<lambda>rec. NumCols rec \<le> w) (records r) \<Longrightarrow> row \<in> set (remainingRows r) \<Longrightarrow> length row \<le> w"
  by (auto simp: remainingRows_def allRows_def rowsOf_def length_rowAt list_all_iff
           dest!: in_set_dropD split: if_splits)

lemma nextN_trace:
  assumes "\<not> rowsClosed r" "list_all extractable (records r)"
      and "list_all (\<lambda>rec. NumCols rec \<le> length dest) (records r)"
  shows "fst (nextN n r dest) = expectedTrace n (remainingRows r) dest"
  using assms
proof (induction n arbitrary: r dest)
  case 0
  then show ?case by simp
next
  case (Suc n)
  note step = Rows_Next_step [OF Suc.prems]
  show ?case
  proof (cases "remainingRows r")
    case Nil
    with step obtain r' where r': "Rows_Next r dest = (Err EOF, r', dest)"
        "records r' = records r" "\<not> rowsClosed r'" "remainingRows r' = []"
      by auto
    have "fst (nextN n r' dest) = expectedTrace n (remainingRows r') dest"
      using Suc.prems r' by (intro Suc.IH) simp_all
    then show ?thesis
      by (cases "nextN n r' dest") (simp add: r' Nil)
  next
    case (Cons row rest)
    let ?dest = "row @ drop (length row) dest"
    from step Cons obtain r' where r': "Rows_Next r dest = (Ok (), r', ?dest)"
        "records r' = records r" "\<not> rowsClosed r'" "remainingRows r' = rest"
      by auto
    have "length row \<le> length dest"
      using remainingRows_width [OF Suc.prems(3), of row] Cons by simp
    then have len: "length ?dest = length dest"
      by simp
    have "fst (nextN n r' ?dest) = expectedTrace n (remainingRows r') ?dest"
      using Suc.prems r' len by (intro Suc.IH) simp_all
    then show ?thesis
      by (cases "nextN n r' ?dest") (simp add: r' Cons)
  qed
qed

lemma length_expectedTrace: "length (expectedTrace n rows dest) = n"
  by (induction n rows dest rule: expectedTrace.induct) simp_all

lemma expectedTrace_nth:
  "k < n \<Longrightarrow>
   (if k < length rows
    then fst (expectedTrace n rows dest ! k) = Ok () \<and>
         take (length (rows ! k)) (snd (expectedTrace n rows dest ! k)) = rows ! k
    else fst (expectedTrace n rows dest ! k) = Err EOF)"
proof (induction n rows dest arbitrary: k rule: expectedTrace.induct)
  case (1 rows dest)
  then show ?case by simp
next
  case (2 n dest)
  then show ?case by (cases k) simp_all
next
  case (3 n row rows dest)
  then show ?case by (cases k) simp_all
qed

lemma length_allRows: "length (allRows recs) = sum_list (map NumRows recs)"
  by (induction recs) (simp_all add: allRows_def rowsOf_def)

lemma remainingRows_fresh: "remainingRows (newRowsFromArrow recs) = allRows recs"
  by (cases recs) (simp_all add: remainingRows_def newRowsFromArrow_def allRows_def drop_Suc)


text \<open>
  C2, as stated, fails: a batch with a cell that is present in a column of an unsupported
  type has one row, and \<open>Next\<close> on a fresh cursor over it returns the error "unsupported
  Arrow type" and does not advance.
\<close>

theorem Rows_Next_unsupported_counterexample:
  "sum_list (map NumRows [listBatch]) = 1 \<and>
   Rows_Next (newRowsFromArrow [listBatch]) [Nil] =
     (Err (UnsupportedArrowType ''*array.List''), newRowsFromArrow [listBatch], [Nil])"
  by (simp add: Rows_Next_def newRowsFromArrow_def nextLoop.simps listBatch_def NumRows_def
        listColumn_def getValueFromColumn_def)

text \<open>
  C2, amended: for every sequence of decoded batches in which \<open>getValueFromColumn\<close>
  returns a value for every cell, with row counts that sum to \<open>R\<close>, and a destination slice
  with room for the columns of every batch, \<open>n\<close> calls of \<open>Next\<close> from a fresh cursor give this:
  call \<open>k\<close> succeeds when \<open>k < R\<close> and leaves in the destination the row \<open>k\<close> of the rows of
  the batches, taken in batch order and in row order within a batch, and every call from
  the \<open>R\<close>-th on returns \<open>io.EOF\<close>.
\<close>

theorem Rows_Next_visits_all_rows:
  "list_all extractable recs \<Longrightarrow> list_all (\<lambda>rec. NumCols rec \<le> length dest) recs \<Longrightarrow>
     length (allRows recs) = sum_list (map NumRows recs) \<and>
     length (fst (nextN n (newRowsFromArrow recs) dest)) = n \<and>
     (\<forall>k<n. if k < sum_list (map NumRows recs)
            then fst (fst (nextN n (newRowsFromArrow recs) dest) ! k) = Ok () \<and>
                 take (length (allRows recs ! k))
                   (snd (fst (nextN n (newRowsFromArrow recs) dest) ! k)) = allRows recs ! k
            else fst (fst (nextN n (newRowsFromArrow recs) dest) ! k) = Err EOF)"
proof -
  assume ok: "list_all extractable recs" and wide: "list_all (\<lambda>rec. NumCols rec \<le> length dest) recs"
  have fresh: "\<not> rowsClosed (newRowsFromArrow recs)" "records (newRowsFromArrow recs) = recs"
    by (simp_all add: newRowsFromArrow_def)
  have trace: "fst (nextN n (newRowsFromArrow recs) dest) = expectedTrace n (allRows recs) dest"
    using nextN_trace [of "newRowsFromArrow recs" dest n] ok wide fresh
    by (simp add: remainingRows_fresh)
  show ?thesis
    unfolding trace using expectedTrace_nth [of _ n "allRows recs" dest]
    by (simp add: length_expectedTrace length_allRows)
qed

theorem Rows_Next_visits_all_rows_witness:
  "fst (fst (nextN 5 (newRowsFromArrow [batchA, batchB]) [Nil]) ! 1) = Ok () \<and>
   snd (fst (nextN 5 (newRowsFromArrow [batchA, batchB]) [Nil]) ! 1) = [Nil] \<and>
   fst (fst (nextN 5 (newRowsFromArrow [batchA, batchB]) [Nil]) ! 2) = Ok () \<and>
   snd (fst (nextN 5 (newRowsFromArrow [batchA, batchB]) [Nil]) ! 2) = [Value Int64 (SInt 9)] \<and>
   fst (fst (nextN 5 (newRowsFromArrow [batchA, batchB]) [Nil]) ! 3) = Err EOF"
proof -
  have ok: "list_all extractable [batchA, batchB]"
    by code_simp
  have wide: "list_all (\<lambda>rec. NumCols rec \<le> length [Nil]) [batchA, batchB]"
    by code_simp
  have R: "sum_list (map NumRows [batchA, batchB]) = 3"
    by code_simp
  have rows: "allRows [batchA, batchB] = [[Value Int64 (SInt 7)], [Nil], [Value Int64 (SInt 9)]]"
    by code_simp
  let ?trace = "fst (nextN 5 (newRowsFromArrow [batchA, batchB]) [Nil])"
  note visits = Rows_Next_visits_all_rows [OF ok wide, of 5, unfolded R rows]
  then have len: "length ?trace = 5"
    by blast
  from visits have k1: "fst (?trace ! 1) = Ok () \<and> take 1 (snd (?trace ! 1)) = [Nil]"
    by (auto dest!: spec [of _ 1])
  from visits have k2: "fst (?trace ! 2) = Ok () \<and> take 1 (snd (?trace ! 2)) = [Value Int64 (SInt 9)]"
    by (auto dest!: spec [of _ 2])
  from visits have k3: "fst (?trace ! 3) = Err EOF"
    by (auto dest!: spec [of _ 3])
  have one: "length (snd (?trace ! 1)) = 1 \<and> length (snd (?trace ! 2)) = 1"
    by code_simp
  from k1 k2 k3 one show ?thesis
    by simp
qed

section \<open>Executing a statement\<close>



end
